theory Spec2Isabelle
  imports Complex_Main "HOL-Library.Word"
begin

section \<open>JavaScript values held by the page\<close>

text \<open>
  The page (\<open>src/dashboard/src/app/page.tsx\<close>) stores whatever \<open>res.json()\<close>
  resolves to in its \<open>result\<close> state and reads properties of it while rendering.
  A value is therefore any JavaScript value that JSON parsing can build, plus
  \<open>undefined\<close>, which reading a missing property yields.

  A number is an IEEE double. The page never computes with numbers: it tests them for
  truthiness and hands them to React as children. A parsed number is modelled by its
  numeric value (every finite double is a rational; the two zeros are one value), or one
  of the infinities that an out-of-range literal such as \<open>1e999\<close> parses to. \<open>NaN\<close>
  is not the value of any JSON text.

  An object is the list of its own properties; a property is looked up by the first
  entry with its name.
\<close>

datatype jsnum = Finite rat | PosInfinity | NegInfinity

datatype jsval =
    JUndefined
  | JNull
  | JBool bool
  | JNum jsnum
  | JStr string
  | JArr "jsval list"
  | JObj "(string \<times> jsval) list"

text \<open>The values that a JSON text can denote: everything but \<open>undefined\<close>, at any depth.\<close>

fun is_json :: "jsval \<Rightarrow> bool" where
  "is_json JUndefined = False"
| "is_json JNull = True"
| "is_json (JBool b) = True"
| "is_json (JNum n) = True"
| "is_json (JStr s) = True"
| "is_json (JArr vs) = list_all is_json vs"
| "is_json (JObj ps) = list_all (\<lambda>p. is_json (snd p)) ps"

text \<open>
  \<open>ToBoolean\<close>, which \<open>&&\<close> applies to its left operand: \<open>undefined\<close>, \<open>null\<close>,
  \<open>false\<close>, zero and the empty string are falsy; every array and object is truthy.
\<close>

fun truthy :: "jsval \<Rightarrow> bool" where
  "truthy JUndefined = False"
| "truthy JNull = False"
| "truthy (JBool b) = b"
| "truthy (JNum n) = (n \<noteq> Finite 0)"
| "truthy (JStr s) = (s \<noteq> [])"
| "truthy (JArr vs) = True"
| "truthy (JObj ps) = True"

datatype js_error =
    TypeError       \<comment> \<open>a rejected \<open>fetch\<close>; a property read of \<open>undefined\<close> or \<open>null\<close>\<close>
  | SyntaxError     \<comment> \<open>\<open>res.json()\<close> on a body that is not JSON\<close>
  | OtherError string
  | ReactChildError \<comment> \<open>React: "Objects are not valid as a React child"\<close>

text \<open>
  The properties that the page reads. None of them is a property of a built-in
  prototype, of a string or of an array, so reading one from a boolean, a number, a
  string or an array yields \<open>undefined\<close>; reading one from \<open>undefined\<close> or
  \<open>null\<close> throws a \<open>TypeError\<close>.
\<close>

datatype field =
    strategy | strategy_name | description
  | results | sharpe_ratio | win_rate | average_return
  | explanation

fun field_name :: "field \<Rightarrow> string" where
  "field_name strategy = ''strategy''"
| "field_name strategy_name = ''strategy_name''"
| "field_name description = ''description''"
| "field_name results = ''results''"
| "field_name sharpe_ratio = ''sharpe_ratio''"
| "field_name win_rate = ''win_rate''"
| "field_name average_return = ''average_return''"
| "field_name explanation = ''explanation''"

fun get_field :: "jsval \<Rightarrow> field \<Rightarrow> js_error + jsval" where
  "get_field JUndefined f = Inl TypeError"
| "get_field JNull f = Inl TypeError"
| "get_field (JObj ps) f =
     Inr (case map_of ps (field_name f) of None \<Rightarrow> JUndefined | Some v \<Rightarrow> v)"
| "get_field v f = Inr JUndefined"

definition bind_error :: "js_error + 'a \<Rightarrow> ('a \<Rightarrow> js_error + 'b) \<Rightarrow> js_error + 'b" where
  "bind_error m k = (case m of Inl e \<Rightarrow> Inl e | Inr x \<Rightarrow> k x)"

text \<open>A member chain \<open>v.f.g\<close>: the second read happens only if the first returned.\<close>

definition get_path :: "jsval \<Rightarrow> field \<Rightarrow> field \<Rightarrow> js_error + jsval" where
  "get_path v f g = bind_error (get_field v f) (\<lambda>w. get_field w g)"

section \<open>JavaScript strings\<close>

text \<open>
  A JavaScript string is a sequence of 16-bit code units, and the prompt is any such
  sequence: whatever the user types or pastes, well-formed UTF-16 or not. \<open>js\<close>
  is the JavaScript string of a piece of ASCII text of the source. The strings inside
  a parsed response are only stored, tested for emptiness and handed to React, never
  looked into, and are kept as they stand in \<open>jsval\<close>.
\<close>

type_synonym jsstring = "16 word list"

definition unit_of :: "char \<Rightarrow> 16 word" where
  "unit_of c = of_nat (of_char c)"

definition js :: "string \<Rightarrow> jsstring" where
  "js t = map unit_of t"

section \<open>State, effects and \<open>handleRun\<close>\<close>

text \<open>
  The component state is the three \<open>useState\<close> cells \<open>prompt\<close>, \<open>loading\<close>
  and \<open>result\<close> (initially \<open>""\<close>, \<open>false\<close>, \<open>null\<close>: an absent result is
  \<open>null\<close>). The record also holds what the page does to its environment: the lines
  written with \<open>console.error\<close>, the \<open>fetch\<close> calls made, and the number of
  activations of \<open>handleRun\<close> suspended at an \<open>await\<close>.
\<close>

record request =
  url :: string
  http_method :: string
  headers :: "(string \<times> string) list"
  body :: jsstring

record page =
  prompt :: jsstring
  loading :: bool
  result :: jsval
  console :: "(string \<times> js_error) list"
  sent :: "request list"
  pending :: nat

definition initial :: page where
  "initial = \<lparr>prompt = [], loading = False, result = JNull,
              console = [], sent = [], pending = 0\<rparr>"

datatype effect =
    SetPrompt jsstring
  | SetLoading bool
  | SetResult jsval
  | Fetch request
  | ConsoleError string js_error

fun perform :: "page \<Rightarrow> effect \<Rightarrow> page" where
  "perform s (SetPrompt p) = s\<lparr>prompt := p\<rparr>"
| "perform s (SetLoading b) = s\<lparr>loading := b\<rparr>"
| "perform s (SetResult v) = s\<lparr>result := v\<rparr>"
| "perform s (Fetch r) = s\<lparr>sent := sent s @ [r]\<rparr>"
| "perform s (ConsoleError m e) = s\<lparr>console := console s @ [(m, e)]\<rparr>"

definition perform_all :: "page \<Rightarrow> effect list \<Rightarrow> page" where
  "perform_all s effs = foldl perform s effs"

subsection \<open>\<open>JSON.stringify\<close> of an object of strings\<close>

text \<open>
  \<open>JSON.stringify({ prompt })\<close> serialises an object whose one property is a string.
  \<open>JSON_quote\<close> is the standard's \<open>QuoteJSONString\<close>. It goes through the string
  by code points: a high surrogate followed by a low one is one code point and is copied;
  a surrogate on its own is written as an escape of a backslash, the letter u and four
  lower-case hexadecimal digits; of the other code units the quotation mark, the backslash and the
  control characters are escaped and all the rest are copied.
\<close>

definition hex_digit :: "nat \<Rightarrow> 16 word" where
  "hex_digit k = of_nat (if k < 10 then 48 + k else 87 + k)"

definition unicode_escape :: "16 word \<Rightarrow> jsstring" where
  "unicode_escape u =
     js [CHR 0x5C, CHR ''u''] @
     [hex_digit (unat u div 4096), hex_digit (unat u div 256 mod 16),
      hex_digit (unat u div 16 mod 16), hex_digit (unat u mod 16)]"

definition is_high_surrogate :: "16 word \<Rightarrow> bool" where
  "is_high_surrogate u = (0xD800 \<le> unat u \<and> unat u \<le> 0xDBFF)"

definition is_low_surrogate :: "16 word \<Rightarrow> bool" where
  "is_low_surrogate u = (0xDC00 \<le> unat u \<and> unat u \<le> 0xDFFF)"

definition JSON_quote_unit :: "16 word \<Rightarrow> jsstring" where
  "JSON_quote_unit u =
     (if unat u = 0x08 then js [CHR 0x5C, CHR ''b'']
      else if unat u = 0x09 then js [CHR 0x5C, CHR ''t'']
      else if unat u = 0x0A then js [CHR 0x5C, CHR ''n'']
      else if unat u = 0x0C then js [CHR 0x5C, CHR ''f'']
      else if unat u = 0x0D then js [CHR 0x5C, CHR ''r'']
      else if unat u = 0x22 then js [CHR 0x5C, CHR 0x22]
      else if unat u = 0x5C then js [CHR 0x5C, CHR 0x5C]
      else if unat u < 0x20 then unicode_escape u
      else [u])"

fun JSON_quote_units :: "jsstring \<Rightarrow> jsstring" where
  "JSON_quote_units [] = []"
| "JSON_quote_units (u # us) =
     (if is_high_surrogate u then
        (case us of
           [] \<Rightarrow> unicode_escape u
         | v # vs \<Rightarrow>
             if is_low_surrogate v then u # v # JSON_quote_units vs
             else unicode_escape u @ JSON_quote_units us)
      else if is_low_surrogate u then unicode_escape u @ JSON_quote_units us
      else JSON_quote_unit u @ JSON_quote_units us)"

definition JSON_quote :: "jsstring \<Rightarrow> jsstring" where
  "JSON_quote p = js [CHR 0x22] @ JSON_quote_units p @ js [CHR 0x22]"

fun JSON_members :: "(jsstring \<times> jsstring) list \<Rightarrow> jsstring" where
  "JSON_members [] = []"
| "JSON_members [(k, v)] = JSON_quote k @ js '':'' @ JSON_quote v"
| "JSON_members ((k, v) # ps) =
     JSON_quote k @ js '':'' @ JSON_quote v @ js '','' @ JSON_members ps"

definition JSON_stringify :: "(jsstring \<times> jsstring) list \<Rightarrow> jsstring" where
  "JSON_stringify ps = js ''{'' @ JSON_members ps @ js ''}''"

subsection \<open>The handler\<close>

text \<open>
  What the environment answers to one run: \<open>fetch\<close> rejects, or resolves to a
  response with a status code, whose \<open>json()\<close> in turn rejects or resolves to a value.
\<close>

datatype json_outcome = JsonRejects js_error | JsonResolves jsval

datatype fetch_outcome = FetchRejects js_error | FetchResolves nat json_outcome

text \<open>
  A block of statements performs effects in order and ends normally (\<open>None\<close>) or by
  throwing (\<open>Some err\<close>). \<open>try_catch_finally\<close> is the \<open>try\<close> statement: the handler
  runs only if the body threw, the finaliser always runs, and what the finaliser throws
  replaces what came before.
\<close>

type_synonym block = "effect list \<times> js_error option"

definition try_catch_finally :: "block \<Rightarrow> (js_error \<Rightarrow> block) \<Rightarrow> block \<Rightarrow> block" where
  "try_catch_finally tried handler finaliser =
     (let (e1, r1) = tried;
          (e2, r2) = (case r1 of None \<Rightarrow> ([], None) | Some err \<Rightarrow> handler err);
          (e3, r3) = finaliser
      in (e1 @ e2 @ e3, case r3 of None \<Rightarrow> r2 | Some err \<Rightarrow> Some err))"

text \<open>
  \<open>handleRun\<close> runs in two turns of the event loop. The first (lines 15 to 25) is
  synchronous: two state updates, then the \<open>fetch\<close> call with the prompt of the
  render that the handler belongs to. At the \<open>await\<close> the activation is suspended.
\<close>

definition run_strategy_request :: "jsstring \<Rightarrow> request" where
  "run_strategy_request p =
     \<lparr>url = ''http://localhost:8000/run-strategy'',
      http_method = ''POST'',
      headers = [(''Content-Type'', ''application/json'')],
      body = JSON_stringify [(js ''prompt'', p)]\<rparr>"

definition handleRun_begin :: "page \<Rightarrow> effect list" where
  "handleRun_begin s =
     [SetLoading True, SetResult JNull, Fetch (run_strategy_request (prompt s))]"

text \<open>
  The second turn (lines 27 to 33) runs when the request has settled. Nothing happens
  between the two awaits, so they are one step: the rest of the \<open>try\<close> body either
  gets the parsed data and stores it, or is left by the rejection; \<open>catch\<close> logs;
  \<open>finally\<close> clears \<open>loading\<close>. React applies the updates of one turn together,
  so the page is not rendered between them.
\<close>

fun try_body :: "fetch_outcome \<Rightarrow> block" where
  "try_body (FetchRejects err) = ([], Some err)"
| "try_body (FetchResolves status (JsonRejects err)) = ([], Some err)"
| "try_body (FetchResolves status (JsonResolves data)) = ([SetResult data], None)"

definition catch_clause :: "js_error \<Rightarrow> block" where
  "catch_clause err = ([ConsoleError ''Failed to run strategy'' err], None)"

definition finally_clause :: block where
  "finally_clause = ([SetLoading False], None)"

definition handleRun_resume :: "fetch_outcome \<Rightarrow> block" where
  "handleRun_resume outcome = try_catch_finally (try_body outcome) catch_clause finally_clause"

text \<open>One whole execution of \<open>handleRun\<close> with nothing else in between.\<close>

definition handleRun :: "fetch_outcome \<Rightarrow> page \<Rightarrow> page" where
  "handleRun outcome s =
     perform_all (perform_all s (handleRun_begin s)) (fst (handleRun_resume outcome))"

section \<open>The view\<close>

text \<open>
  \<open>Home\<close> returns a tree of React elements. A node is literal JSX text, the value
  of a \<open>{...}\<close> expression, or an element with its props and children. Components of
  the UI kit (\<open>Button\<close>, \<open>Textarea\<close>, \<open>Card\<close>, \<open>CardContent\<close>,
  \<open>Skeleton\<close>) and of the framework (\<open>Head\<close>) are elements like the host ones,
  named by what the JSX names.
\<close>

datatype handler =
    HandleRun                \<comment> \<open>\<open>onClick={handleRun}\<close>\<close>
  | SetPromptToTargetValue   \<comment> \<open>\<open>onChange={(e) => setPrompt(e.target.value)}\<close>\<close>

datatype attr = PStr string | PJs jsstring | PBool bool | PHandler handler

datatype node =
    Text string
  | Expr jsval
  | Elem string "(string \<times> attr) list" "node list"

definition skeleton :: node where
  "skeleton =
     Elem ''div'' [(''className'', PStr ''space-y-4'')]
       [Elem ''Skeleton'' [(''className'', PStr ''h-6 w-1/2'')] [],
        Elem ''Skeleton'' [(''className'', PStr ''h-4 w-3/4'')] [],
        Elem ''Skeleton'' [(''className'', PStr ''h-4 w-full'')] [],
        Elem ''Skeleton'' [(''className'', PStr ''h-4 w-5/6'')] []]"

text \<open>
  The card of lines 67 to 81, from the values of the six member expressions in it.
\<close>

definition result_card :: "jsval \<Rightarrow> jsval \<Rightarrow> jsval \<Rightarrow> jsval \<Rightarrow> jsval \<Rightarrow> jsval \<Rightarrow> node" where
  "result_card name desc sharpe win avg expl =
     Elem ''Card'' [(''className'', PStr ''mt-4 max-w-3xl'')]
       [Elem ''CardContent'' [(''className'', PStr ''p-4 space-y-2'')]
          [Elem ''h2'' [(''className'', PStr ''text-lg font-semibold'')] [Expr name],
           Elem ''p'' [(''className'', PStr ''text-sm text-muted-foreground'')] [Expr desc],
           Elem ''div'' [(''className'', PStr ''pt-2'')]
             [Elem ''strong'' [] [Text ''Sharpe:''], Text '' '', Expr sharpe, Text '' | '',
              Elem ''strong'' [] [Text ''Win Rate:''], Text '' '', Expr win, Text '' | '',
              Elem ''strong'' [] [Text ''Avg Return:''], Text '' '', Expr avg],
           Elem ''div'' [(''className'', PStr ''pt-2'')]
             [Elem ''strong'' [] [Text ''Explanation:''],
              Elem ''p'' [(''className'', PStr ''text-sm mt-1 whitespace-pre-line'')]
                [Expr expl]]]]"

text \<open>
  Building the card evaluates the member expressions in document order; the first one
  that throws ends the evaluation of the whole of \<open>Home\<close>.
\<close>

definition result_panel :: "jsval \<Rightarrow> js_error + node" where
  "result_panel r =
     bind_error (get_path r strategy strategy_name) (\<lambda>name.
     bind_error (get_path r strategy description) (\<lambda>desc.
     bind_error (get_path r results sharpe_ratio) (\<lambda>sharpe.
     bind_error (get_path r results win_rate) (\<lambda>win.
     bind_error (get_path r results average_return) (\<lambda>avg.
     bind_error (get_field r explanation) (\<lambda>expl.
     Inr (result_card name desc sharpe win avg expl)))))))"

text \<open>
  The two children of \<open><div className="mt-8">\<close>. \<open>a && b\<close> is \<open>b\<close> if \<open>a\<close> is
  truthy and \<open>a\<close> itself otherwise, so a falsy \<open>result\<close> is itself the second child.
\<close>

definition result_area :: "page \<Rightarrow> js_error + node list" where
  "result_area s =
     bind_error (if truthy (result s) then result_panel (result s) else Inr (Expr (result s)))
       (\<lambda>second. Inr [if loading s then skeleton else Expr (JBool False), second])"

definition textarea :: "page \<Rightarrow> node" where
  "textarea s =
     Elem ''Textarea''
       [(''placeholder'', PStr ''Enter your strategy prompt here...''),
        (''value'', PJs (prompt s)),
        (''onChange'', PHandler SetPromptToTargetValue),
        (''className'', PStr ''w-full max-w-2xl mb-4'')] []"

definition button :: "page \<Rightarrow> node" where
  "button s =
     Elem ''Button'' [(''onClick'', PHandler HandleRun), (''disabled'', PBool (loading s))]
       [Expr (JStr (if loading s then ''Running...'' else ''Run Strategy''))]"

definition Home :: "page \<Rightarrow> js_error + node" where
  "Home s =
     bind_error (result_area s) (\<lambda>area.
     Inr (Elem ''Fragment'' []
       [Elem ''Head'' [] [Elem ''title'' [] [Text ''Quant Strategy Dashboard'']],
        Elem ''main'' [(''className'', PStr ''min-h-screen p-6 bg-gray-50'')]
          [Elem ''h1'' [(''className'', PStr ''text-2xl font-bold mb-4'')]
             [Text ''Quant Strategy Generator''],
           textarea s,
           button s,
           Elem ''div'' [(''className'', PStr ''mt-8'')] area]]))"

text \<open>All elements of a given name in a tree, in document order.\<close>

fun elements :: "string \<Rightarrow> node \<Rightarrow> node list" where
  "elements n (Text t) = []"
| "elements n (Expr v) = []"
| "elements n (Elem m ps cs) =
     (if m = n then [Elem m ps cs] else []) @ concat (map (elements n) cs)"

subsection \<open>What React mounts for a child\<close>

text \<open>
  React mounts nothing for \<open>undefined\<close>, \<open>null\<close>, a boolean and the empty string, a
  text node for any other string and for a number (zero included), the items of an
  array in order, and refuses a plain object. The text of a number is the platform's
  number-to-string conversion and is kept as the number. An element is mounted with its
  children mounted in place; the components of the UI kit are not expanded, they stay
  nodes that carry their props and their children.
\<close>

datatype dom = DText string | DNumber jsnum | DElem string "(string \<times> attr) list" "dom list"

fun collect :: "(js_error + 'a list) list \<Rightarrow> js_error + 'a list" where
  "collect [] = Inr []"
| "collect (Inl e # rs) = Inl e"
| "collect (Inr xs # rs) = (case collect rs of Inl e \<Rightarrow> Inl e | Inr ys \<Rightarrow> Inr (xs @ ys))"

fun mount_value :: "jsval \<Rightarrow> js_error + dom list" where
  "mount_value JUndefined = Inr []"
| "mount_value JNull = Inr []"
| "mount_value (JBool b) = Inr []"
| "mount_value (JNum n) = Inr [DNumber n]"
| "mount_value (JStr t) = Inr (if t = [] then [] else [DText t])"
| "mount_value (JArr vs) = collect (map mount_value vs)"
| "mount_value (JObj ps) = Inl ReactChildError"

fun mount :: "node \<Rightarrow> js_error + dom list" where
  "mount (Text t) = Inr [DText t]"
| "mount (Expr v) = mount_value v"
| "mount (Elem n ps cs) =
     (case collect (map mount cs) of Inl e \<Rightarrow> Inl e | Inr ds \<Rightarrow> Inr [DElem n ps ds])"

text \<open>Rendering: evaluate \<open>Home\<close>, then mount what it returned.\<close>

definition render :: "page \<Rightarrow> js_error + dom list" where
  "render s = bind_error (Home s) mount"

definition render_result_area :: "page \<Rightarrow> js_error + dom list" where
  "render_result_area s = bind_error (result_area s) (\<lambda>cs. collect (map mount cs))"

section \<open>Events\<close>

text \<open>
  The page reacts to three kinds of event: the user changes the text of the textarea
  (\<open>onChange\<close> with the new text as \<open>e.target.value\<close>), the user clicks the button
  (a disabled button delivers no click), and a request made by a suspended activation
  of \<open>handleRun\<close> settles. \<open>fire\<close> runs a handler of the view on an event whose
  target holds the given text; \<open>handleRun\<close> takes no argument and ignores it. A
  completion with no activation waiting for it does not occur, and changes nothing.
\<close>

fun fire :: "handler \<Rightarrow> jsstring \<Rightarrow> page \<Rightarrow> page" where
  "fire SetPromptToTargetValue v s = perform_all s [SetPrompt v]"
| "fire HandleRun v s = (perform_all s (handleRun_begin s))\<lparr>pending := Suc (pending s)\<rparr>"

datatype event = Type jsstring | Click | Settle fetch_outcome

fun step :: "page \<Rightarrow> event \<Rightarrow> page" where
  "step s (Type v) = fire SetPromptToTargetValue v s"
| "step s Click = (if loading s then s else fire HandleRun [] s)"
| "step s (Settle outcome) =
     (if pending s = 0 then s
      else (perform_all s (fst (handleRun_resume outcome)))\<lparr>pending := pending s - 1\<rparr>)"

definition exec :: "page \<Rightarrow> event list \<Rightarrow> page" where
  "exec s es = foldl step s es"

section \<open>Vocabulary of the specification\<close>

text \<open>
  The value that the response body parsed to, and the error that the request or the
  parse failed with: every outcome has exactly one of the two.
\<close>

fun parsed :: "fetch_outcome \<Rightarrow> jsval option" where
  "parsed (FetchRejects err) = None"
| "parsed (FetchResolves status (JsonRejects err)) = None"
| "parsed (FetchResolves status (JsonResolves data)) = Some data"

fun failure :: "fetch_outcome \<Rightarrow> js_error option" where
  "failure (FetchRejects err) = Some err"
| "failure (FetchResolves status (JsonRejects err)) = Some err"
| "failure (FetchResolves status (JsonResolves data)) = None"

fun is_Fetch :: "effect \<Rightarrow> bool" where
  "is_Fetch (Fetch r) = True"
| "is_Fetch e = False"

fun is_SetPrompt :: "effect \<Rightarrow> bool" where
  "is_SetPrompt (SetPrompt p) = True"
| "is_SetPrompt e = False"

text \<open>
  The invariant of the event loop: an activation of \<open>handleRun\<close> is suspended
  exactly while \<open>loading\<close> is set, there is never more than one, and the result is
  absent for as long as it is.
\<close>

definition consistent :: "page \<Rightarrow> bool" where
  "consistent s =
     (pending s = (if loading s then 1 else 0) \<and> (loading s \<longrightarrow> result s = JNull))"

text \<open>The value of \<open>v.f\<close> where the read does not throw.\<close>

definition field_value :: "jsval \<Rightarrow> field \<Rightarrow> jsval" where
  "field_value v f = (case get_field v f of Inl e \<Rightarrow> JUndefined | Inr w \<Rightarrow> w)"

fun nullish :: "jsval \<Rightarrow> bool" where
  "nullish JUndefined = True"
| "nullish JNull = True"
| "nullish v = False"

fun is_object :: "jsval \<Rightarrow> bool" where
  "is_object (JObj ps) = True"
| "is_object v = False"

fun is_string :: "jsval \<Rightarrow> bool" where
  "is_string (JStr t) = True"
| "is_string v = False"

fun is_display :: "jsval \<Rightarrow> bool" where
  "is_display (JStr t) = True"
| "is_display (JNum n) = True"
| "is_display v = False"

fun has_field :: "jsval \<Rightarrow> field \<Rightarrow> (jsval \<Rightarrow> bool) \<Rightarrow> bool" where
  "has_field (JObj ps) f P =
     (case map_of ps (field_name f) of None \<Rightarrow> False | Some w \<Rightarrow> P w)"
| "has_field v f P = False"

text \<open>
  The \<open>StrategyResult\<close> shape, written from the data model of the specification and
  not from the code: \<open>strategy.strategy_name\<close> and \<open>strategy.description\<close> are
  strings, the three metrics under \<open>results\<close> are numbers or strings, and
  \<open>explanation\<close> is a string.
\<close>

definition matches_StrategyResult :: "jsval \<Rightarrow> bool" where
  "matches_StrategyResult r =
     (has_field r strategy
        (\<lambda>st. has_field st strategy_name is_string \<and> has_field st description is_string) \<and>
      has_field r results
        (\<lambda>rs. has_field rs sharpe_ratio is_display \<and> has_field rs win_rate is_display \<and>
              has_field rs average_return is_display) \<and>
      has_field r explanation is_string)"

subsection \<open>Reading a JSON string literal\<close>

text \<open>
  What the receiver of the request does with a string literal of the body, by the JSON
  grammar: the text between the quotation marks, with every escape replaced by the
  code unit it stands for. An escape of a backslash, the letter u and four hexadecimal digits of either case
  stands for any code unit. Raw control characters and unknown escapes are not
  JSON. It is the inverse that \<open>JSON_quote\<close> is measured against.
\<close>

definition hex_value :: "16 word \<Rightarrow> nat option" where
  "hex_value c =
     (let n = unat c
      in if 48 \<le> n \<and> n \<le> 57 then Some (n - 48)
         else if 97 \<le> n \<and> n \<le> 102 then Some (n - 87)
         else if 65 \<le> n \<and> n \<le> 70 then Some (n - 55)
         else None)"

definition simple_escape :: "16 word \<Rightarrow> 16 word option" where
  "simple_escape d =
     (if d = unit_of (CHR 0x22) then Some 0x22
      else if d = unit_of (CHR 0x5C) then Some 0x5C
      else if d = unit_of CHR ''/'' then Some 0x2F
      else if d = unit_of CHR ''b'' then Some 0x08
      else if d = unit_of CHR ''f'' then Some 0x0C
      else if d = unit_of CHR ''n'' then Some 0x0A
      else if d = unit_of CHR ''r'' then Some 0x0D
      else if d = unit_of CHR ''t'' then Some 0x09
      else None)"

fun JSON_unquote_rest :: "jsstring \<Rightarrow> jsstring option" where
  "JSON_unquote_rest [] = None"
| "JSON_unquote_rest (c # cs) =
     (if c = unit_of (CHR 0x22) then (if cs = [] then Some [] else None)
      else if c = unit_of (CHR 0x5C) then
        (case cs of
           [] \<Rightarrow> None
         | d # ds \<Rightarrow>
             if d = unit_of CHR ''u'' then
               (case ds of
                  h3 # h2 # h1 # h0 # rest \<Rightarrow>
                    (case (hex_value h3, hex_value h2, hex_value h1, hex_value h0) of
                       (Some a, Some b, Some x, Some y) \<Rightarrow>
                          map_option ((#) (of_nat (4096 * a + 256 * b + 16 * x + y)))
                            (JSON_unquote_rest rest)
                     | _ \<Rightarrow> None)
                | _ \<Rightarrow> None)
             else
               (case simple_escape d of
                  None \<Rightarrow> None
                | Some e \<Rightarrow> map_option ((#) e) (JSON_unquote_rest ds)))
      else if unat c < 32 then None
      else map_option ((#) c) (JSON_unquote_rest cs))"

definition JSON_unquote :: "jsstring \<Rightarrow> jsstring option" where
  "JSON_unquote t =
     (case t of [] \<Rightarrow> None
      | c # cs \<Rightarrow> if c = unit_of (CHR 0x22) then JSON_unquote_rest cs else None)"

section \<open>The second turn of \<open>handleRun\<close>\<close>

lemma resume_success:
  "handleRun_resume (FetchResolves status (JsonResolves data)) =
     ([SetResult data, SetLoading False], None)"
  by (simp add: handleRun_resume_def try_catch_finally_def finally_clause_def)

lemma resume_failure:
  "failure outcome = Some err \<Longrightarrow>
   handleRun_resume outcome =
     ([ConsoleError ''Failed to run strategy'' err, SetLoading False], None)"
  by (cases outcome rule: failure.cases)
     (simp_all add: handleRun_resume_def try_catch_finally_def finally_clause_def
        catch_clause_def)

lemma parsed_or_failure: "(parsed outcome = None) = (failure outcome \<noteq> None)"
  by (cases outcome rule: failure.cases) simp_all

lemma no_failure_parsed:
  "failure outcome = None \<Longrightarrow> \<exists>status data. outcome = FetchResolves status (JsonResolves data)"
  by (cases outcome rule: failure.cases) simp_all

lemma resume_effects:
  "(\<exists>data. fst (handleRun_resume outcome) = [SetResult data, SetLoading False]) \<or>
   (\<exists>err. fst (handleRun_resume outcome) =
      [ConsoleError ''Failed to run strategy'' err, SetLoading False])"
proof (cases "failure outcome")
  case None
  then show ?thesis using no_failure_parsed [of outcome] by (auto simp: resume_success)
next
  case (Some err)
  then show ?thesis by (simp add: resume_failure)
qed

section \<open>One request at a time\<close>

lemma consistent_initial: "consistent initial"
  by (simp add: consistent_def initial_def)

lemma consistent_step:
  assumes "consistent s"
  shows "consistent (step s e)"
proof (cases e)
  case (Type v)
  with assms show ?thesis by (simp add: consistent_def perform_all_def)
next
  case Click
  with assms show ?thesis by (simp add: consistent_def perform_all_def handleRun_begin_def)
next
  case (Settle outcome)
  show ?thesis
  proof (cases "failure outcome")
    case None
    then obtain st d where "outcome = FetchResolves st (JsonResolves d)"
      using no_failure_parsed by blast
    with Settle assms show ?thesis
      by (simp add: consistent_def perform_all_def resume_success)
  next
    case (Some err)
    with Settle assms show ?thesis
      by (simp add: consistent_def perform_all_def resume_failure)
  qed
qed

lemma consistent_exec: "consistent s \<Longrightarrow> consistent (exec s es)"
  unfolding exec_def by (induction es arbitrary: s) (simp_all add: consistent_step)

lemma in_flight:
  "consistent s \<Longrightarrow> 0 < pending s \<Longrightarrow> loading s \<and> result s = JNull \<and> pending s = 1"
  by (auto simp: consistent_def split: if_splits)

lemma reachable_in_flight:
  "0 < pending (exec initial es) \<Longrightarrow>
   loading (exec initial es) \<and> result (exec initial es) = JNull \<and> pending (exec initial es) = 1"
  using consistent_exec [OF consistent_initial] by (rule in_flight)

section \<open>Properties of \<open>submit()\<close>\<close>

text \<open>
  C1. Take any state that the page reaches from its initial state through edits, clicks
  and completions, in which an execution of \<open>handleRun\<close> is in flight. When that
  execution settles, whatever the outcome, \<open>loading\<close> is false and exactly one of
  the two holds (they differ in truth value): the body parsed and \<open>result\<close> is the
  parsed value, or the request or the parse failed and \<open>result\<close> is absent. The
  same holds of an execution that starts in any state whatever and runs undisturbed.
\<close>

theorem submit_settles:
  assumes "0 < pending (exec initial es)"
  shows "loading (step (exec initial es) (Settle outcome)) = False \<and>
         ((\<exists>v. parsed outcome = Some v \<and> result (step (exec initial es) (Settle outcome)) = v)
          \<noteq> (failure outcome \<noteq> None \<and> result (step (exec initial es) (Settle outcome)) = JNull)) \<and>
         loading (handleRun outcome s) = False \<and>
         ((\<exists>v. parsed outcome = Some v \<and> result (handleRun outcome s) = v)
          \<noteq> (failure outcome \<noteq> None \<and> result (handleRun outcome s) = JNull))"
proof -
  let ?s = "exec initial es"
  have running: "loading ?s \<and> result ?s = JNull \<and> pending ?s = 1"
    using assms by (rule reachable_in_flight)
  show ?thesis
  proof (cases "failure outcome")
    case None
    then obtain st d where "outcome = FetchResolves st (JsonResolves d)"
      using no_failure_parsed by blast
    with running show ?thesis
      by (simp add: perform_all_def resume_success handleRun_def handleRun_begin_def)
  next
    case (Some err)
    then have "parsed outcome = None" by (simp add: parsed_or_failure)
    with Some running show ?thesis
      by (simp add: perform_all_def resume_failure handleRun_def handleRun_begin_def)
  qed
qed

theorem submit_settles_witness:
  "0 < pending (exec initial [Type (js ''momentum''), Click]) \<and>
   loading (step (exec initial [Type (js ''momentum''), Click])
     (Settle (FetchResolves 200 (JsonResolves (JStr ''ok''))))) = False \<and>
   result (step (exec initial [Type (js ''momentum''), Click])
     (Settle (FetchResolves 200 (JsonResolves (JStr ''ok''))))) = JStr ''ok''"
proof -
  have h: "0 < pending (exec initial [Type (js ''momentum''), Click])"
    by (simp add: exec_def initial_def perform_all_def handleRun_begin_def)
  from submit_settles [OF h, of "FetchResolves 200 (JsonResolves (JStr ''ok''))"] h
  show ?thesis by (simp del: step.simps)
qed

text \<open>
  C2. When the request or the parse fails with an error, the second turn of
  \<open>handleRun\<close> consists of one \<open>console.error\<close> call with that error and the
  clearing of \<open>loading\<close>, and ends normally: nothing is thrown out of the handler.
  In any reachable state with an execution in flight, the failure appends exactly one
  line to the console, leaves \<open>result\<close> absent and sets \<open>loading\<close> to false.
\<close>

theorem failure_logged_and_swallowed:
  assumes "failure outcome = Some err" and "0 < pending (exec initial es)"
  shows "handleRun_resume outcome =
           ([ConsoleError ''Failed to run strategy'' err, SetLoading False], None) \<and>
         console (step (exec initial es) (Settle outcome)) =
           console (exec initial es) @ [(''Failed to run strategy'', err)] \<and>
         result (step (exec initial es) (Settle outcome)) = JNull \<and>
         loading (step (exec initial es) (Settle outcome)) = False"
proof -
  have "loading (exec initial es) \<and> result (exec initial es) = JNull \<and>
        pending (exec initial es) = 1"
    using assms(2) by (rule reachable_in_flight)
  with assms(1) show ?thesis by (simp add: perform_all_def resume_failure)
qed

theorem failure_logged_and_swallowed_witness:
  "failure (FetchResolves 502 (JsonRejects SyntaxError)) = Some SyntaxError \<and>
   0 < pending (exec initial [Click, Type (js ''abc'')]) \<and>
   snd (handleRun_resume (FetchResolves 502 (JsonRejects SyntaxError))) = None \<and>
   console (step (exec initial [Click, Type (js ''abc'')])
     (Settle (FetchResolves 502 (JsonRejects SyntaxError)))) =
       [(''Failed to run strategy'', SyntaxError)] \<and>
   result (step (exec initial [Click, Type (js ''abc'')])
     (Settle (FetchResolves 502 (JsonRejects SyntaxError)))) = JNull \<and>
   loading (step (exec initial [Click, Type (js ''abc'')])
     (Settle (FetchResolves 502 (JsonRejects SyntaxError)))) = False"
proof -
  have f: "failure (FetchResolves 502 (JsonRejects SyntaxError)) = Some SyntaxError"
    by simp
  have h: "0 < pending (exec initial [Click, Type (js ''abc'')])"
    by (simp add: exec_def initial_def perform_all_def handleRun_begin_def)
  have c: "console (exec initial [Click, Type (js ''abc'')]) = []"
    by (simp add: exec_def initial_def perform_all_def handleRun_begin_def)
  from failure_logged_and_swallowed [OF f h] f h c show ?thesis
    by (simp del: step.simps)
qed

text \<open>
  C3. For every status code and every parsed value, the second turn of \<open>handleRun\<close>
  stores the value and clears \<open>loading\<close>, and does nothing else: the status is not
  looked at and the value is not inspected; after the execution \<open>result\<close> is the
  value as parsed.
\<close>

theorem any_status_parsed_and_stored:
  "handleRun_resume (FetchResolves status (JsonResolves data)) =
     ([SetResult data, SetLoading False], None) \<and>
   result (handleRun (FetchResolves status (JsonResolves data)) s) = data"
  by (simp add: resume_success handleRun_def perform_all_def handleRun_begin_def)

text \<open>
  C4. The first turn of \<open>handleRun\<close> is, in this order, \<open>setLoading(true)\<close>,
  \<open>setResult(null)\<close> and the \<open>fetch\<close> call, so the state it leaves has
  \<open>loading\<close> set and \<open>result\<close> absent. A second submission made after a first
  one has fully resolved, with any outcome, leaves \<open>loading\<close> set, \<open>result\<close>
  absent and the prompt as it was: nothing of the first outcome remains in the state.
\<close>

theorem submit_clears_first:
  "handleRun_begin s =
     [SetLoading True, SetResult JNull, Fetch (run_strategy_request (prompt s))] \<and>
   loading (fire HandleRun x s) = True \<and>
   result (fire HandleRun x s) = JNull \<and>
   loading (step (handleRun outcome s) Click) = True \<and>
   result (step (handleRun outcome s) Click) = JNull \<and>
   prompt (step (handleRun outcome s) Click) = prompt s"
proof -
  have idle: "loading (handleRun outcome s) = False" "prompt (handleRun outcome s) = prompt s"
    using resume_effects [of outcome]
    by (auto simp: handleRun_def perform_all_def handleRun_begin_def)
  then show ?thesis
    by (simp add: handleRun_begin_def perform_all_def)
qed

text \<open>
  C5. In every state reachable from the initial state through edits, clicks and
  completions, if \<open>loading\<close> is true then \<open>result\<close> is absent, the result area is
  the placeholder followed by the absent result, and the view has the four bars of the
  placeholder and no result card.
\<close>

theorem loading_shows_placeholder_only:
  assumes "loading (exec initial es)"
  shows "result (exec initial es) = JNull \<and>
         result_area (exec initial es) = Inr [skeleton, Expr JNull] \<and>
         (\<exists>v. Home (exec initial es) = Inr v \<and>
              length (elements ''Skeleton'' v) = 4 \<and> elements ''Card'' v = [])"
proof -
  let ?s = "exec initial es"
  have "consistent ?s" using consistent_exec [OF consistent_initial] .
  with assms have r: "result ?s = JNull" by (simp add: consistent_def)
  with assms have area: "result_area ?s = Inr [skeleton, Expr JNull]"
    by (simp add: result_area_def bind_error_def)
  then have "\<exists>v. Home ?s = Inr v \<and>
              length (elements ''Skeleton'' v) = 4 \<and> elements ''Card'' v = []"
    by (simp add: Home_def bind_error_def skeleton_def textarea_def button_def)
  with r area show ?thesis by simp
qed

theorem loading_shows_placeholder_only_witness:
  "loading (exec initial [Type (js ''pairs trading''), Click, Type (js ''pairs'')]) \<and>
   result (exec initial [Type (js ''pairs trading''), Click, Type (js ''pairs'')]) = JNull \<and>
   result_area (exec initial [Type (js ''pairs trading''), Click, Type (js ''pairs'')]) =
     Inr [skeleton, Expr JNull]"
proof -
  have h: "loading (exec initial [Type (js ''pairs trading''), Click, Type (js ''pairs'')])"
    by (simp add: exec_def initial_def perform_all_def handleRun_begin_def)
  from loading_shows_placeholder_only [OF h] h show ?thesis by simp
qed

section \<open>The request\<close>

lemma unat_unit_of: "unat (unit_of c) = of_char c"
proof -
  have "(of_char c :: nat) mod 256 = of_char c" by simp
  then have "(of_char c :: nat) < 256" by (metis mod_less_divisor zero_less_numeral)
  also have "(256 :: nat) < 65536" by simp
  finally have "(of_char c :: nat) mod 65536 = of_char c" by (rule mod_less)
  then show ?thesis unfolding unit_of_def by (simp add: unat_of_nat)
qed

lemma unit_eq: "(u = unit_of c) = (unat u = of_char c)"
  by (simp add: word_unat_eq_iff unat_unit_of)

lemma hex_value_digit: "k < 16 \<Longrightarrow> hex_value (hex_digit k) = Some k"
  by (auto simp: hex_value_def hex_digit_def Let_def unat_of_nat)

lemma unquote_closing: "JSON_unquote_rest (js [CHR 0x22]) = Some []"
  by (simp add: js_def)

lemma unquote_plain:
  "unat c \<noteq> 34 \<Longrightarrow> unat c \<noteq> 92 \<Longrightarrow> 32 \<le> unat c \<Longrightarrow>
   JSON_unquote_rest (c # cs) = map_option ((#) c) (JSON_unquote_rest cs)"
  by (simp add: unit_eq)

lemma unquote_simple:
  "simple_escape d = Some e \<Longrightarrow> unat d \<noteq> 117 \<Longrightarrow>
   JSON_unquote_rest (unit_of (CHR 0x5C) # d # ds) = map_option ((#) e) (JSON_unquote_rest ds)"
  by (simp add: unit_eq unat_unit_of)

lemma unquote_unicode:
  "hex_value h3 = Some a \<Longrightarrow> hex_value h2 = Some b \<Longrightarrow>
   hex_value h1 = Some x \<Longrightarrow> hex_value h0 = Some y \<Longrightarrow>
   JSON_unquote_rest (unit_of (CHR 0x5C) # unit_of CHR ''u'' # h3 # h2 # h1 # h0 # rest) =
     map_option ((#) (of_nat (4096 * a + 256 * b + 16 * x + y))) (JSON_unquote_rest rest)"
  by (simp add: unit_eq unat_unit_of)

lemma four_hex_digits:
  "4096 * (n div 4096) + 256 * (n div 256 mod 16) + 16 * (n div 16 mod 16) + n mod 16 = (n::nat)"
proof -
  define a where "a = n div 16"
  define b where "b = a div 16"
  define c where "c = b div 16"
  have split: "n = 16 * a + n mod 16" "a = 16 * b + a mod 16" "b = 16 * c + b mod 16"
    by (simp_all add: a_def b_def c_def)
  have "n div 256 = b" "n div 4096 = c"
    by (simp_all add: a_def b_def c_def div_mult2_eq)
  then have "4096 * (n div 4096) + 256 * (n div 256 mod 16) + 16 * (n div 16 mod 16) + n mod 16
             = 4096 * c + 256 * (b mod 16) + 16 * (a mod 16) + n mod 16"
    by (simp add: a_def)
  also from split have "\<dots> = n" by linarith
  finally show ?thesis .
qed

lemma unquote_unicode_escape:
  "JSON_unquote_rest (unicode_escape u @ rest) = map_option ((#) u) (JSON_unquote_rest rest)"
proof -
  let ?n = "unat u"
  have "?n < 2 ^ 16" using unsigned_less [of u] by simp
  then have "?n div 4096 < 16" by simp
  then have h3: "hex_value (hex_digit (?n div 4096)) = Some (?n div 4096)"
    by (rule hex_value_digit)
  have h2: "hex_value (hex_digit (?n div 256 mod 16)) = Some (?n div 256 mod 16)"
    by (intro hex_value_digit) simp
  have h1: "hex_value (hex_digit (?n div 16 mod 16)) = Some (?n div 16 mod 16)"
    by (intro hex_value_digit) simp
  have h0: "hex_value (hex_digit (?n mod 16)) = Some (?n mod 16)"
    by (intro hex_value_digit) simp
  have same: "(of_nat (4096 * (?n div 4096) + 256 * (?n div 256 mod 16) +
                 16 * (?n div 16 mod 16) + ?n mod 16) :: 16 word) = u"
    by (simp only: four_hex_digits) simp
  show ?thesis
    unfolding unicode_escape_def js_def list.map append_Cons append_Nil
    by (simp only: unquote_unicode [OF h3 h2 h1 h0] same)
qed

lemma simple_escapes:
  "simple_escape (unit_of CHR ''b'') = Some 8"
  "simple_escape (unit_of CHR ''t'') = Some 9"
  "simple_escape (unit_of CHR ''n'') = Some 10"
  "simple_escape (unit_of CHR ''f'') = Some 12"
  "simple_escape (unit_of CHR ''r'') = Some 13"
  "simple_escape (unit_of (CHR 0x22)) = Some 34"
  "simple_escape (unit_of (CHR 0x5C)) = Some 92"
  by (simp_all add: simple_escape_def unit_eq unat_unit_of)

lemma unquote_quote_unit:
  "JSON_unquote_rest (JSON_quote_unit u @ rest) = map_option ((#) u) (JSON_unquote_rest rest)"
proof -
  consider "unat u = 8" | "unat u = 9" | "unat u = 10" | "unat u = 12" | "unat u = 13"
    | "unat u = 34" | "unat u = 92"
    | "unat u \<notin> {8, 9, 10, 12, 13, 34, 92}" "unat u < 32"
    | "unat u \<notin> {8, 9, 10, 12, 13, 34, 92}" "32 \<le> unat u"
    by force
  then show ?thesis
  proof cases
    case 8
    then have "JSON_quote_unit u = unicode_escape u" by (simp add: JSON_quote_unit_def)
    then show ?thesis by (simp only: unquote_unicode_escape)
  next
    case 9
    then have "JSON_quote_unit u = [u]" by (simp add: JSON_quote_unit_def)
    with 9 show ?thesis by (simp add: unquote_plain del: JSON_unquote_rest.simps)
  next
    case 1
    then have "u = 8" by (simp add: word_unat_eq_iff)
    with 1 have "JSON_quote_unit u = [unit_of (CHR 0x5C), unit_of CHR ''b'']"
      by (simp add: JSON_quote_unit_def js_def)
    with \<open>u = 8\<close> show ?thesis
      by (simp add: unquote_simple [OF simple_escapes(1)] unat_unit_of
            del: JSON_unquote_rest.simps)
  next
    case 2
    then have "u = 9" by (simp add: word_unat_eq_iff)
    with 2 have "JSON_quote_unit u = [unit_of (CHR 0x5C), unit_of CHR ''t'']"
      by (simp add: JSON_quote_unit_def js_def)
    with \<open>u = 9\<close> show ?thesis
      by (simp add: unquote_simple [OF simple_escapes(2)] unat_unit_of
            del: JSON_unquote_rest.simps)
  next
    case 3
    then have "u = 10" by (simp add: word_unat_eq_iff)
    with 3 have "JSON_quote_unit u = [unit_of (CHR 0x5C), unit_of CHR ''n'']"
      by (simp add: JSON_quote_unit_def js_def)
    with \<open>u = 10\<close> show ?thesis
      by (simp add: unquote_simple [OF simple_escapes(3)] unat_unit_of
            del: JSON_unquote_rest.simps)
  next
    case 4
    then have "u = 12" by (simp add: word_unat_eq_iff)
    with 4 have "JSON_quote_unit u = [unit_of (CHR 0x5C), unit_of CHR ''f'']"
      by (simp add: JSON_quote_unit_def js_def)
    with \<open>u = 12\<close> show ?thesis
      by (simp add: unquote_simple [OF simple_escapes(4)] unat_unit_of
            del: JSON_unquote_rest.simps)
  next
    case 5
    then have "u = 13" by (simp add: word_unat_eq_iff)
    with 5 have "JSON_quote_unit u = [unit_of (CHR 0x5C), unit_of CHR ''r'']"
      by (simp add: JSON_quote_unit_def js_def)
    with \<open>u = 13\<close> show ?thesis
      by (simp add: unquote_simple [OF simple_escapes(5)] unat_unit_of
            del: JSON_unquote_rest.simps)
  next
    case 6
    then have "u = 34" by (simp add: word_unat_eq_iff)
    with 6 have "JSON_quote_unit u = [unit_of (CHR 0x5C), unit_of (CHR 0x22)]"
      by (simp add: JSON_quote_unit_def js_def)
    with \<open>u = 34\<close> show ?thesis
      by (simp add: unquote_simple [OF simple_escapes(6)] unat_unit_of
            del: JSON_unquote_rest.simps)
  next
    case 7
    then have "u = 92" by (simp add: word_unat_eq_iff)
    with 7 have "JSON_quote_unit u = [unit_of (CHR 0x5C), unit_of (CHR 0x5C)]"
      by (simp add: JSON_quote_unit_def js_def)
    with \<open>u = 92\<close> show ?thesis
      by (simp add: unquote_simple [OF simple_escapes(7)] unat_unit_of
            del: JSON_unquote_rest.simps)
  qed
qed

lemma surrogate_plain:
  "is_high_surrogate u \<or> is_low_surrogate u \<Longrightarrow> unat u \<noteq> 34 \<and> unat u \<noteq> 92 \<and> 32 \<le> unat u"
  by (auto simp: is_high_surrogate_def is_low_surrogate_def)

lemma unquote_units:
  "JSON_unquote_rest (JSON_quote_units p @ js [CHR 0x22]) = Some p"
proof (induction p rule: JSON_quote_units.induct)
  case 1
  show ?case by (simp add: unquote_closing del: JSON_unquote_rest.simps)
next
  case (2 u us)
  show ?case
  proof (cases "is_high_surrogate u")
    case True
    show ?thesis
    proof (cases us)
      case Nil
      with True show ?thesis
        by (simp add: unquote_unicode_escape unquote_closing del: JSON_unquote_rest.simps)
    next
      case (Cons v vs)
      show ?thesis
      proof (cases "is_low_surrogate v")
        case low: True
        from True have pu: "unat u \<noteq> 34 \<and> unat u \<noteq> 92 \<and> 32 \<le> unat u"
          by (simp add: surrogate_plain)
        from low have pv: "unat v \<noteq> 34 \<and> unat v \<noteq> 92 \<and> 32 \<le> unat v"
          by (simp add: surrogate_plain)
        from "2.IH"(1) [OF True Cons low] True Cons low pu pv show ?thesis
          by (simp add: unquote_plain del: JSON_unquote_rest.simps)
      next
        case False
        from "2.IH"(2) [OF True Cons False] True Cons False show ?thesis
          by (simp add: unquote_unicode_escape del: JSON_unquote_rest.simps)
      qed
    qed
  next
    case False
    show ?thesis
    proof (cases "is_low_surrogate u")
      case True
      from "2.IH"(3) [OF False True] False True show ?thesis
        by (simp add: unquote_unicode_escape del: JSON_unquote_rest.simps)
    next
      case nl: False
      from "2.IH"(4) [OF False nl] False nl show ?thesis
        by (simp add: unquote_quote_unit del: JSON_unquote_rest.simps)
    qed
  qed
qed

lemma JSON_unquote_quote: "JSON_unquote (JSON_quote p) = Some p"
  unfolding JSON_unquote_def JSON_quote_def
  by (simp add: js_def unquote_units [unfolded js_def, simplified] del: JSON_unquote_rest.simps)

lemma JSON_quote_beyond_ascii:
  "JSON_quote [0x20AC, 0xD83D, 0xDE00, 0xD83D] =
     js [CHR 0x22] @ [0x20AC, 0xD83D, 0xDE00] @ js (CHR 0x5C # ''ud83d'') @ js [CHR 0x22]"
  by (simp add: JSON_quote_def js_def unit_of_def unicode_escape_def hex_digit_def
        is_high_surrogate_def is_low_surrogate_def JSON_quote_unit_def)

lemma JSON_quote_prompt_key:
  "JSON_quote (js ''prompt'') = js ([CHR 0x22] @ ''prompt'' @ [CHR 0x22])"
  by (simp add: JSON_quote_def js_def is_high_surrogate_def is_low_surrogate_def
        JSON_quote_unit_def unat_unit_of)

text \<open>
  C6. The effects of one execution of \<open>handleRun\<close>, with any outcome, contain exactly
  one \<open>fetch\<close>: a POST to \<open>http://localhost:8000/run-strategy\<close> with the one
  header \<open>Content-Type: application/json\<close> and the body \<open>{"prompt":\<close>\<open>q\<close>\<open>}\<close>,
  where \<open>q\<close> is the JSON string literal of the prompt of the state that the handler
  was started in, and it is the one request that the execution adds to those sent. For
  every prompt, that is every sequence of 16-bit code units, the empty one, text outside
  ASCII and unpaired surrogates included, reading \<open>q\<close> back gives the prompt
  unchanged.
\<close>

theorem one_post_with_prompt:
  "filter is_Fetch (handleRun_begin s @ fst (handleRun_resume outcome)) =
     [Fetch \<lparr>url = ''http://localhost:8000/run-strategy'', http_method = ''POST'',
             headers = [(''Content-Type'', ''application/json'')],
             body = js (''{'' @ [CHR 0x22] @ ''prompt'' @ [CHR 0x22] @ '':'') @
                    JSON_quote (prompt s) @ js ''}''\<rparr>] \<and>
   sent (handleRun outcome s) = sent s @
     [\<lparr>url = ''http://localhost:8000/run-strategy'', http_method = ''POST'',
       headers = [(''Content-Type'', ''application/json'')],
       body = js (''{'' @ [CHR 0x22] @ ''prompt'' @ [CHR 0x22] @ '':'') @
              JSON_quote (prompt s) @ js ''}''\<rparr>] \<and>
   JSON_unquote (JSON_quote (prompt s)) = Some (prompt s)"
proof -
  have b: "JSON_stringify [(js ''prompt'', p)] =
             js (''{'' @ [CHR 0x22] @ ''prompt'' @ [CHR 0x22] @ '':'') @
             JSON_quote p @ js ''}''" for p
    by (simp add: JSON_stringify_def JSON_quote_prompt_key) (simp add: js_def)
  from resume_effects [of outcome] show ?thesis
    by (auto simp: handleRun_def perform_all_def handleRun_begin_def run_strategy_request_def
          b JSON_unquote_quote simp del: append.simps)
qed

text \<open>
  C8. An execution of \<open>handleRun\<close> leaves the prompt as it was, whatever the outcome,
  and none of its effects is a \<open>setPrompt\<close>. Of the three events of the page, only
  typing into the textarea changes the prompt, and it sets it to the typed text; a click
  and a completion leave it as it was.
\<close>

theorem submit_preserves_prompt:
  "prompt (handleRun outcome s) = prompt s \<and>
   filter is_SetPrompt (handleRun_begin s @ fst (handleRun_resume outcome)) = [] \<and>
   prompt (step s e) = (case e of Type v \<Rightarrow> v | Click \<Rightarrow> prompt s | Settle r \<Rightarrow> prompt s)"
proof -
  have a: "prompt (handleRun outcome s) = prompt s"
    using resume_effects [of outcome]
    by (auto simp: handleRun_def perform_all_def handleRun_begin_def)
  have b: "filter is_SetPrompt (handleRun_begin s @ fst (handleRun_resume outcome)) = []"
    using resume_effects [of outcome] by (auto simp: handleRun_begin_def)
  have c: "prompt (step s e) =
             (case e of Type v \<Rightarrow> v | Click \<Rightarrow> prompt s | Settle r \<Rightarrow> prompt s)"
  proof (cases e)
    case (Settle r)
    then show ?thesis using resume_effects [of r] by (auto simp: perform_all_def)
  qed (simp_all add: perform_all_def handleRun_begin_def)
  from a b c show ?thesis by simp
qed

section \<open>The rendered view\<close>




lemma falsy_json:
  "is_json v \<Longrightarrow> \<not> truthy v \<Longrightarrow>
   v = JNull \<or> v = JBool False \<or> v = JNum (Finite 0) \<or> v = JStr []"
  by (cases v) simp_all

text \<open>
  C9, as the code has it. If the response body parses to a falsy value, \<open>handleRun\<close>
  ends normally without logging and \<open>result\<close> is that value; the result area holds
  no card, only the value itself as a child. For \<open>null\<close>, \<open>false\<close> and the empty
  string React mounts nothing for it, as after a failed request. For \<open>0\<close> React
  mounts the number as text, so the result area shows \<open>0\<close> and differs from the
  empty area that a failed request leaves.
\<close>

theorem falsy_response_hidden:
  assumes "\<not> truthy v"
  shows "handleRun_resume (FetchResolves status (JsonResolves v)) =
           ([SetResult v, SetLoading False], None) \<and>
         result (handleRun (FetchResolves status (JsonResolves v)) s) = v \<and>
         result_area (handleRun (FetchResolves status (JsonResolves v)) s) =
           Inr [Expr (JBool False), Expr v] \<and>
         render_result_area (handleRun (FetchRejects err) s) = Inr [] \<and>
         render_result_area (handleRun (FetchResolves status (JsonResolves v)) s) =
           (if v = JNum (Finite 0) then Inr [DNumber (Finite 0)] else Inr [])"
proof -
  let ?ok = "handleRun (FetchResolves status (JsonResolves v)) s"
  let ?failed = "handleRun (FetchRejects err) s"
  have st: "result ?ok = v" "loading ?ok = False"
    by (simp_all add: handleRun_def perform_all_def handleRun_begin_def resume_success)
  have fl: "result ?failed = JNull" "loading ?failed = False"
    by (simp_all add: handleRun_def perform_all_def handleRun_begin_def resume_failure)
  have area: "result_area ?ok = Inr [Expr (JBool False), Expr v]"
    using assms st by (simp add: result_area_def bind_error_def)
  have m: "mount_value v = (if v = JNum (Finite 0) then Inr [DNumber (Finite 0)] else Inr [])"
    using assms by (cases v) auto
  have shown: "render_result_area ?ok =
                 (if v = JNum (Finite 0) then Inr [DNumber (Finite 0)] else Inr [])"
    using area m by (simp add: render_result_area_def bind_error_def)
  have failed: "render_result_area ?failed = Inr []"
    using fl by (simp add: render_result_area_def result_area_def bind_error_def)
  from st area shown failed show ?thesis by (simp add: resume_success)
qed

theorem falsy_response_hidden_witness:
  "\<not> truthy (JStr []) \<and>
   result (handleRun (FetchResolves 200 (JsonResolves (JStr []))) initial) = JStr [] \<and>
   render_result_area (handleRun (FetchResolves 200 (JsonResolves (JStr []))) initial) = Inr [] \<and>
   render_result_area (handleRun (FetchRejects TypeError) initial) = Inr []"
proof -
  have h: "\<not> truthy (JStr [])" by simp
  from falsy_response_hidden [OF h, of 200 initial TypeError] h show ?thesis by simp
qed

theorem zero_response_is_shown:
  "\<not> truthy (JNum (Finite 0)) \<and>
   render_result_area
     (exec initial [Click, Settle (FetchResolves 200 (JsonResolves (JNum (Finite 0))))]) =
     Inr [DNumber (Finite 0)] \<and>
   render_result_area (exec initial [Click, Settle (FetchRejects TypeError)]) = Inr [] \<and>
   render_result_area
     (exec initial [Click, Settle (FetchResolves 200 (JsonResolves (JNum (Finite 0))))]) \<noteq>
   render_result_area (exec initial [Click, Settle (FetchRejects TypeError)])"
  by (simp add: exec_def initial_def perform_all_def handleRun_begin_def resume_success
        resume_failure render_result_area_def result_area_def bind_error_def)

section \<open>Rendering a result\<close>

lemma get_field_nullish: "nullish w \<Longrightarrow> get_field w f = Inl TypeError"
  by (cases w) simp_all

lemma get_field_defined: "\<not> nullish w \<Longrightarrow> get_field w f = Inr (field_value w f)"
  by (cases w) (simp_all add: field_value_def)

lemma truthy_defined: "truthy r \<Longrightarrow> \<not> nullish r"
  by (cases r) simp_all

lemma result_panel_truthy:
  assumes "truthy r"
  shows "result_panel r =
    (if nullish (field_value r strategy) \<or> nullish (field_value r results) then Inl TypeError
     else Inr (result_card
            (field_value (field_value r strategy) strategy_name)
            (field_value (field_value r strategy) description)
            (field_value (field_value r results) sharpe_ratio)
            (field_value (field_value r results) win_rate)
            (field_value (field_value r results) average_return)
            (field_value r explanation)))"
  using truthy_defined [OF assms]
  by (cases "nullish (field_value r strategy)"; cases "nullish (field_value r results)")
     (simp_all add: result_panel_def get_path_def bind_error_def get_field_nullish
        get_field_defined)

lemma has_field_value: "has_field v f P \<Longrightarrow> P (field_value v f) \<and> \<not> nullish v"
  by (cases v) (auto simp: field_value_def split: option.splits)

lemma is_string_mount: "is_string v \<Longrightarrow> \<not> isl (mount_value v) \<and> \<not> nullish v"
  by (cases v) auto

lemma is_display_mount: "is_display v \<Longrightarrow> \<not> isl (mount_value v) \<and> \<not> nullish v"
  by (cases v) auto

lemma mount_result_card:
  assumes "\<not> isl (mount_value a)" "\<not> isl (mount_value b)" "\<not> isl (mount_value c)"
    "\<not> isl (mount_value d)" "\<not> isl (mount_value e)" "\<not> isl (mount_value f)"
  shows "\<not> isl (mount (result_card a b c d e f))"
proof -
  from assms obtain a' b' c' d' e' f' where
    "mount_value a = Inr a'" "mount_value b = Inr b'" "mount_value c = Inr c'"
    "mount_value d = Inr d'" "mount_value e = Inr e'" "mount_value f = Inr f'"
    by (metis sum.collapse(2))
  then show ?thesis by (simp add: result_card_def)
qed

text \<open>
  C10, as the code has it. Rendering a present result is partial. For a truthy
  \<open>result\<close>, \<open>Home\<close> throws, and what it throws is a \<open>TypeError\<close>, exactly when
  \<open>result.strategy\<close> or \<open>result.results\<close> is \<open>undefined\<close> or \<open>null\<close>: the
  field is missing, or null, or \<open>result\<close> is not an object at all. A field holding
  a string, a number, a boolean or an array does not make it throw: the properties read
  from it are \<open>undefined\<close>. Whenever \<open>result\<close> has the \<open>StrategyResult\<close>
  shape, \<open>Home\<close> returns and React mounts what it returned.
\<close>

theorem panel_partial:
  "(truthy (result s) \<longrightarrow>
      isl (Home s) =
        (nullish (field_value (result s) strategy) \<or> nullish (field_value (result s) results)) \<and>
      (Home s = Inl TypeError) = isl (Home s)) \<and>
   (matches_StrategyResult (result s) \<longrightarrow> \<not> isl (Home s) \<and> \<not> isl (render s))"
proof (intro conjI impI)
  assume t: "truthy (result s)"
  then show "isl (Home s) =
      (nullish (field_value (result s) strategy) \<or> nullish (field_value (result s) results))"
    by (simp add: Home_def result_area_def bind_error_def result_panel_truthy)
  from t show "(Home s = Inl TypeError) = isl (Home s)"
    by (simp add: Home_def result_area_def bind_error_def result_panel_truthy)
next
  assume m: "matches_StrategyResult (result s)"
  let ?r = "result s"
  have obj: "\<not> nullish ?r"
    using m unfolding matches_StrategyResult_def by (auto dest: has_field_value)
  then have t: "truthy ?r"
    using m by (cases ?r) (simp_all add: matches_StrategyResult_def)
  have st: "\<not> nullish (field_value ?r strategy)" "\<not> nullish (field_value ?r results)"
    using m unfolding matches_StrategyResult_def by (auto dest: has_field_value)
  have leaves:
    "\<not> isl (mount_value (field_value (field_value ?r strategy) strategy_name))"
    "\<not> isl (mount_value (field_value (field_value ?r strategy) description))"
    "\<not> isl (mount_value (field_value (field_value ?r results) sharpe_ratio))"
    "\<not> isl (mount_value (field_value (field_value ?r results) win_rate))"
    "\<not> isl (mount_value (field_value (field_value ?r results) average_return))"
    "\<not> isl (mount_value (field_value ?r explanation))"
    using m unfolding matches_StrategyResult_def
    by (auto dest!: has_field_value dest: is_string_mount is_display_mount)
  from mount_result_card [OF leaves] obtain ds where
    "mount (result_card
       (field_value (field_value ?r strategy) strategy_name)
       (field_value (field_value ?r strategy) description)
       (field_value (field_value ?r results) sharpe_ratio)
       (field_value (field_value ?r results) win_rate)
       (field_value (field_value ?r results) average_return)
       (field_value ?r explanation)) = Inr ds"
    by (metis sum.collapse(2))
  with st t show "\<not> isl (render s)"
    by (simp add: render_def Home_def result_area_def bind_error_def result_panel_truthy
          skeleton_def textarea_def button_def)
  from st t show "\<not> isl (Home s)"
    by (simp add: Home_def result_area_def bind_error_def result_panel_truthy)
qed

theorem panel_partial_witness:
  "truthy (JObj [(''results'', JObj [])]) \<and>
   Home (initial\<lparr>result := JObj [(''results'', JObj [])]\<rparr>) = Inl TypeError \<and>
   matches_StrategyResult
     (JObj [(''strategy'', JObj [(''strategy_name'', JStr ''Momentum''),
                                  (''description'', JStr ''Buys winners'')]),
            (''results'', JObj [(''sharpe_ratio'', JNum (Finite (3 / 2))),
                                 (''win_rate'', JNum (Finite (1 / 2))),
                                 (''average_return'', JNum (Finite (1 / 32)))]),
            (''explanation'', JStr (''Line1'' @ [CHR 0x0A] @ ''Line2''))]) \<and>
   \<not> isl (render (initial\<lparr>result :=
      JObj [(''strategy'', JObj [(''strategy_name'', JStr ''Momentum''),
                                  (''description'', JStr ''Buys winners'')]),
            (''results'', JObj [(''sharpe_ratio'', JNum (Finite (3 / 2))),
                                 (''win_rate'', JNum (Finite (1 / 2))),
                                 (''average_return'', JNum (Finite (1 / 32)))]),
            (''explanation'', JStr (''Line1'' @ [CHR 0x0A] @ ''Line2''))]\<rparr>))"
proof -
  let ?bad = "JObj [(''results'', JObj [])]"
  let ?good = "JObj [(''strategy'', JObj [(''strategy_name'', JStr ''Momentum''),
                                  (''description'', JStr ''Buys winners'')]),
            (''results'', JObj [(''sharpe_ratio'', JNum (Finite (3 / 2))),
                                 (''win_rate'', JNum (Finite (1 / 2))),
                                 (''average_return'', JNum (Finite (1 / 32)))]),
            (''explanation'', JStr (''Line1'' @ [CHR 0x0A] @ ''Line2''))]"
  have t: "truthy (result (initial\<lparr>result := ?bad\<rparr>))" by simp
  have n: "nullish (field_value (result (initial\<lparr>result := ?bad\<rparr>)) strategy)"
    by (simp add: field_value_def)
  have m: "matches_StrategyResult (result (initial\<lparr>result := ?good\<rparr>))"
    by (simp add: matches_StrategyResult_def)
  from panel_partial [of "initial\<lparr>result := ?bad\<rparr>"] t n
  have bad: "Home (initial\<lparr>result := ?bad\<rparr>) = Inl TypeError" by blast
  from panel_partial [of "initial\<lparr>result := ?good\<rparr>"] m
  have good: "\<not> isl (render (initial\<lparr>result := ?good\<rparr>))" by blast
  from t m bad good show ?thesis by simp
qed

theorem primitive_fields_render:
  "truthy (JObj [(''strategy'', JStr ''x''), (''results'', JNum (Finite 1))]) \<and>
   \<not> is_object (field_value (JObj [(''strategy'', JStr ''x''), (''results'', JNum (Finite 1))])
                  strategy) \<and>
   \<not> is_object (field_value (JObj [(''strategy'', JStr ''x''), (''results'', JNum (Finite 1))])
                  results) \<and>
   \<not> matches_StrategyResult (JObj [(''strategy'', JStr ''x''), (''results'', JNum (Finite 1))]) \<and>
   result (exec initial [Click, Settle (FetchResolves 200 (JsonResolves
          (JObj [(''strategy'', JStr ''x''), (''results'', JNum (Finite 1))])))]) =
     JObj [(''strategy'', JStr ''x''), (''results'', JNum (Finite 1))] \<and>
   \<not> isl (render (exec initial [Click, Settle (FetchResolves 200 (JsonResolves
          (JObj [(''strategy'', JStr ''x''), (''results'', JNum (Finite 1))])))]))"
  by (simp add: exec_def initial_def perform_all_def handleRun_begin_def resume_success
        render_def Home_def result_area_def result_panel_def get_path_def bind_error_def
        result_card_def textarea_def button_def field_value_def matches_StrategyResult_def)

end
